theory Spec2Isabelle
  imports Main
begin

section \<open>Python values used by app.py\<close>

text \<open>
  A Python \<open>str\<close> is a sequence of Unicode code points: \<open>len\<close> and slicing count code
  points, so a character is a natural number here. \<open>bytes\<close> are 8-bit characters.
\<close>

type_synonym pychar = nat
type_synonym pystr = "pychar list"
type_synonym bytes = "char list"

definition lit :: "string \<Rightarrow> pystr" where
  "lit s = map of_char s"

text \<open>
  \<open>str.strip()\<close> without argument removes leading and trailing whitespace, the characters
  for which \<open>str.isspace\<close> holds (CPython's \<open>_PyUnicode_IsWhitespace\<close>).
\<close>

definition isspace :: "pychar \<Rightarrow> bool" where
  "isspace c =
     ((9 \<le> c \<and> c \<le> 13) \<or> (28 \<le> c \<and> c \<le> 32) \<or> c = 133 \<or> c = 160 \<or> c = 5760 \<or>
      (8192 \<le> c \<and> c \<le> 8202) \<or> c = 8232 \<or> c = 8233 \<or> c = 8239 \<or> c = 8287 \<or>
      c = 12288)"

definition strip :: "pystr \<Rightarrow> pystr" where
  "strip s = rev (dropWhile isspace (rev (dropWhile isspace s)))"

text \<open>
  An exception of class \<open>Exception\<close>, carried with its \<open>str(e)\<close>. These are the
  exceptions that the \<open>except Exception\<close> clauses of the code catch.
\<close>

datatype exn = Exception pystr

fun str_of_exn :: "exn \<Rightarrow> pystr" where
  "str_of_exn (Exception m) = m"

section \<open>The outside world\<close>

text \<open>
  What happens when the loop over \<open>reader.pages\<close> comes to a page: the iteration
  raises before it yields the page, or the page is yielded and \<open>page.extract_text()\<close>
  raises, or \<open>extract_text\<close> returns \<open>None\<close> or a string.
\<close>

datatype page = Unreadable exn | ExtractRaises exn | Extracted "pystr option"

text \<open>
  What one call of \<open>client.models.generate_content\<close> does: it raises, or it returns
  a response whose \<open>text\<close> attribute is \<open>None\<close> or a string.
\<close>

datatype remote_outcome = CallRaises exn | Response "pystr option"

text \<open>
  The collaborators of one request: the PDF library (\<open>PyPDF2.PdfReader\<close> on the bytes
  of a file raises or gives the pages), the remote service (the outcome of the call
  number \<open>k\<close> made by this process, for a model name and a prompt), the string of the
  UUID that \<open>uuid.uuid4()\<close> draws, and whether \<open>resume_file.save\<close> raises.
\<close>

record env =
  PdfReader :: "bytes \<Rightarrow> exn + page list"
  generate_content :: "nat \<Rightarrow> pystr \<Rightarrow> pystr \<Rightarrow> remote_outcome"
  uuid4 :: pystr
  save_raises :: "exn option"

text \<open>
  The state the code reads and writes: the files on disk by path, the number of calls
  made to the remote service, the arguments of \<open>time.sleep\<close> in the order of the
  calls, and the lines printed.
\<close>

record world =
  disk :: "pystr \<Rightarrow> bytes option"
  remote_calls :: nat
  slept :: "nat list"
  stdout :: "pystr list"

definition UPLOAD_FOLDER :: pystr where
  "UPLOAD_FOLDER = lit ''uploads''"

definition MODEL_ID :: pystr where
  "MODEL_ID = lit ''gemini-2.5-flash''"

section \<open>PDF text extraction\<close>

text \<open>
  The \<open>for page in reader.pages\<close> loop on the local variable \<open>text\<close>. An exception
  leaves the loop with the text gathered so far.
\<close>

fun read_pages :: "page list \<Rightarrow> pystr \<Rightarrow> exn option \<times> pystr" where
  "read_pages [] text = (None, text)"
| "read_pages (Unreadable e # rest) text = (Some e, text)"
| "read_pages (ExtractRaises e # rest) text = (Some e, text)"
| "read_pages (Extracted extracted # rest) text =
     (case extracted of
        None \<Rightarrow> read_pages rest text
      | Some t \<Rightarrow> if t \<noteq> [] then read_pages rest (text @ t @ lit ''\<newline>'')
                  else read_pages rest text)"

text \<open>
  \<open>open\<close> on a path that is not on the disk raises; the message is only printed by the
  handler of the exception.
\<close>

definition no_such_file :: "pystr \<Rightarrow> exn" where
  "no_such_file p = Exception (lit ''[Errno 2] No such file or directory: '' @ p)"

text \<open>The body of the \<open>try\<close>: \<open>open\<close>, \<open>PdfReader\<close>, then the loop.\<close>

definition extract_try :: "env \<Rightarrow> pystr \<Rightarrow> world \<Rightarrow> pystr \<Rightarrow> exn option \<times> pystr" where
  "extract_try e pdf_path w text =
     (case disk w pdf_path of
        None \<Rightarrow> (Some (no_such_file pdf_path), text)
      | Some file \<Rightarrow>
          (case PdfReader e file of
             Inl x \<Rightarrow> (Some x, text)
           | Inr pages \<Rightarrow> read_pages pages text))"

definition extract_text_from_pdf :: "env \<Rightarrow> pystr \<Rightarrow> world \<Rightarrow> (exn + pystr) \<times> world" where
  "extract_text_from_pdf e pdf_path w =
     (case extract_try e pdf_path w [] of
        (None, text) \<Rightarrow> (Inr (strip text), w)
      | (Some x, text) \<Rightarrow>
          (Inr (strip text),
           w\<lparr>stdout := stdout w @ [lit ''PDF Extraction Error: '' @ str_of_exn x]\<rparr>))"

text \<open>
  The contract in the words of the specification: every page's text followed by a
  newline, nothing for a page without text, the whole trimmed.
\<close>

definition spec_page_text :: "pystr option \<Rightarrow> pystr" where
  "spec_page_text extracted =
     (case extracted of None \<Rightarrow> [] | Some t \<Rightarrow> if t = [] then [] else t @ lit ''\<newline>'')"

definition spec_extracted_text :: "pystr option list \<Rightarrow> pystr" where
  "spec_extracted_text texts = strip (concat (map spec_page_text texts))"

text \<open>
  The pages of a document can be enumerated when the iteration yields each of them. A
  page yields the text that \<open>extract_text\<close> returns on it, and no text when there is
  none to return.
\<close>

fun page_enumerated :: "page \<Rightarrow> bool" where
  "page_enumerated (Unreadable e) = False"
| "page_enumerated (ExtractRaises e) = True"
| "page_enumerated (Extracted extracted) = True"

fun page_returns :: "page \<Rightarrow> bool" where
  "page_returns (Unreadable e) = False"
| "page_returns (ExtractRaises e) = False"
| "page_returns (Extracted extracted) = True"

fun page_text :: "page \<Rightarrow> pystr option" where
  "page_text (Unreadable e) = None"
| "page_text (ExtractRaises e) = None"
| "page_text (Extracted extracted) = extracted"

section \<open>The call of the remote service, with backoff\<close>

definition prompt_head :: "string list" where
  "prompt_head =
     ['''',
      ''    You are an advanced Applicant Tracking System used by FAANG-level companies.'',
      '''',
      ''    Analyze the resume against the job description.'',
      '''',
      ''    RESUME:'']"

definition prompt_middle :: "string list" where
  "prompt_middle =
     ['''',
      ''    JOB DESCRIPTION:'']"

definition prompt_tail :: "string list" where
  "prompt_tail =
     ['''',
      ''    Return the result STRICTLY in this format:'',
      '''',
      ''    ATS Match: <number>%'',
      '''',
      ''    Strengths:'',
      ''    - Bullet points of strong alignment'',
      ''    - Clear and concise'',
      '''',
      ''    Improvement Suggestions:'',
      ''    - Missing skills'',
      ''    - Weak areas'',
      ''    - Actionable resume fixes'',
      '''',
      ''    Rules:'',
      ''    - Use professional ATS language'',
      ''    - Do NOT add explanations outside sections'',
      ''    - Keep output text-only'']"

text \<open>Every line of the template ends with a newline; the last one is four spaces.\<close>

definition template_lines :: "string list \<Rightarrow> pystr" where
  "template_lines ls = concat (map (\<lambda>l. lit l @ lit ''\<newline>'') ls)"

definition build_prompt :: "pystr \<Rightarrow> pystr \<Rightarrow> pystr" where
  "build_prompt resume_text jd_text =
     template_lines prompt_head @ lit ''    '' @ resume_text @ lit ''\<newline>'' @
     template_lines prompt_middle @ lit ''    '' @ jd_text @ lit ''\<newline>'' @
     template_lines prompt_tail @ lit ''    ''"

definition delays :: "nat list" where
  "delays = [1, 2, 4, 8, 16]"

definition fallback :: pystr where
  "fallback = lit ''Error: AI engine is currently overloaded. Please try again in 30 seconds.''"

definition none_has_no_strip :: exn where
  "none_has_no_strip =
     Exception ([39] @ lit ''NoneType'' @ [39] @ lit '' object has no attribute '' @
                [39] @ lit ''strip'' @ [39])"

text \<open>
  The body of the \<open>try\<close> in the loop: one call of the service, then
  \<open>response.text.strip()\<close>, which raises \<open>AttributeError\<close> when the text is \<open>None\<close>.
\<close>

definition attempt :: "env \<Rightarrow> pystr \<Rightarrow> world \<Rightarrow> (exn + pystr) \<times> world" where
  "attempt e prompt w =
     (let w1 = w\<lparr>remote_calls := Suc (remote_calls w)\<rparr> in
      case generate_content e (remote_calls w) MODEL_ID prompt of
        CallRaises x \<Rightarrow> (Inl x, w1)
      | Response None \<Rightarrow> (Inl none_has_no_strip, w1)
      | Response (Some t) \<Rightarrow> (Inr (strip t), w1))"

definition sleep :: "nat \<Rightarrow> world \<Rightarrow> world" where
  "sleep secs w = w\<lparr>slept := slept w @ [secs]\<rparr>"

text \<open>
  \<open>for delay in delays\<close>: \<open>Some\<close> is the value of the \<open>return\<close> inside the loop,
  \<open>None\<close> means that the loop ran to its end.
\<close>

fun retry_loop :: "env \<Rightarrow> pystr \<Rightarrow> nat list \<Rightarrow> world \<Rightarrow> pystr option \<times> world" where
  "retry_loop e prompt [] w = (None, w)"
| "retry_loop e prompt (delay # rest) w =
     (case attempt e prompt w of
        (Inr text, w1) \<Rightarrow> (Some text, w1)
      | (Inl x, w1) \<Rightarrow> retry_loop e prompt rest (sleep delay w1))"

definition run_ats_engine :: "env \<Rightarrow> pystr \<Rightarrow> pystr \<Rightarrow> world \<Rightarrow> (exn + pystr) \<times> world" where
  "run_ats_engine e resume_text jd_text w =
     (case retry_loop e (build_prompt resume_text jd_text) delays w of
        (Some text, w1) \<Rightarrow> (Inr text, w1)
      | (None, w1) \<Rightarrow> (Inr fallback, w1))"

section \<open>The route /analyze\<close>

text \<open>
  A request carries its file parts and its form fields by name. A response is a status
  and the JSON object, as the list of its keys and values.
\<close>

record request =
  files :: "pystr \<Rightarrow> bytes option"
  form :: "pystr \<Rightarrow> pystr option"

record response =
  status :: nat
  json :: "(pystr \<times> pystr) list"

text \<open>\<open>os.path.join\<close> of two components on POSIX.\<close>

definition path_join :: "pystr \<Rightarrow> pystr \<Rightarrow> pystr" where
  "path_join a b =
     (if take 1 b = lit ''/'' then b
      else if a = [] \<or> drop (length a - 1) a = lit ''/'' then a @ b
      else a @ lit ''/'' @ b)"

text \<open>
  \<open>resume_file.save(pdf_path)\<close> raises, leaving the disk as it is, or writes the bytes of
  the upload at the path.
\<close>

definition save :: "env \<Rightarrow> bytes \<Rightarrow> pystr \<Rightarrow> world \<Rightarrow> (exn + unit) \<times> world" where
  "save e resume_file pdf_path w =
     (case save_raises e of
        Some x \<Rightarrow> (Inl x, w)
      | None \<Rightarrow> (Inr (), w\<lparr>disk := (disk w)(pdf_path \<mapsto> resume_file)\<rparr>))"

text \<open>
  \<open>if os.path.exists(pdf_path): os.remove(pdf_path)\<close>, on a disk where removing a
  file that exists succeeds.
\<close>

definition remove_if_exists :: "pystr \<Rightarrow> world \<Rightarrow> world" where
  "remove_if_exists pdf_path w =
     (if disk w pdf_path \<noteq> None then w\<lparr>disk := (disk w)(pdf_path := None)\<rparr> else w)"

text \<open>\<open>request.form.get(key, default)\<close>\<close>

definition form_get :: "request \<Rightarrow> string \<Rightarrow> pystr \<Rightarrow> pystr" where
  "form_get req key dflt = (case form req (lit key) of None \<Rightarrow> dflt | Some v \<Rightarrow> v)"

definition error_response :: "string \<Rightarrow> nat \<Rightarrow> response" where
  "error_response msg code = \<lparr>status = code, json = [(lit ''error'', lit msg)]\<rparr>"

definition pdf_path_of :: "env \<Rightarrow> pystr" where
  "pdf_path_of e = path_join UPLOAD_FOLDER (uuid4 e @ lit ''.pdf'')"

text \<open>The body of the \<open>try\<close> of the handler, steps 2 to 6.\<close>

definition analyze_try :: "env \<Rightarrow> bytes \<Rightarrow> pystr \<Rightarrow> world \<Rightarrow> (exn + response) \<times> world" where
  "analyze_try e resume_file jd_text w =
     (let pdf_path = pdf_path_of e in
      case save e resume_file pdf_path w of
        (Inl x, w1) \<Rightarrow> (Inl x, w1)
      | (Inr u, w1) \<Rightarrow>
          (case extract_text_from_pdf e pdf_path w1 of
             (Inl x, w2) \<Rightarrow> (Inl x, w2)
           | (Inr resume_text, w2) \<Rightarrow>
               if resume_text = [] then
                 (Inr (error_response ''Could not extract text from the uploaded PDF'' 400),
                  remove_if_exists pdf_path w2)
               else
                 (case run_ats_engine e resume_text jd_text w2 of
                    (Inl x, w3) \<Rightarrow> (Inl x, w3)
                  | (Inr ats_result, w3) \<Rightarrow>
                      (Inr \<lparr>status = 200,
                            json = [(lit ''parsed_resume'', take 3000 resume_text),
                                    (lit ''parsed_job_description'', take 3000 jd_text),
                                    (lit ''ats_result'', ats_result)]\<rparr>,
                       remove_if_exists pdf_path w3))))"

definition analyze :: "env \<Rightarrow> request \<Rightarrow> world \<Rightarrow> response \<times> world" where
  "analyze e req w =
     (case files req (lit ''resume'') of
        None \<Rightarrow> (error_response ''Resume file missing'' 400, w)
      | Some resume_file \<Rightarrow>
          (let jd_text = strip (form_get req ''job_description'' []) in
           if jd_text = [] then (error_response ''Job description required'' 400, w)
           else
             (case analyze_try e resume_file jd_text w of
                (Inr resp, w1) \<Rightarrow> (resp, w1)
              | (Inl x, w1) \<Rightarrow>
                  (\<lparr>status = 500,
                    json = [(lit ''error'', lit ''Internal Server Error: '' @ str_of_exn x)]\<rparr>,
                   w1))))"

section \<open>Reading a response and the outcome of a call\<close>

definition json_field :: "response \<Rightarrow> string \<Rightarrow> pystr option" where
  "json_field r key = map_of (json r) (lit key)"

text \<open>The call number \<open>k\<close> gives no text: it raises or its response has no text.\<close>

definition attempt_fails :: "env \<Rightarrow> pystr \<Rightarrow> nat \<Rightarrow> bool" where
  "attempt_fails e prompt k =
     (case generate_content e k MODEL_ID prompt of
        CallRaises x \<Rightarrow> True
      | Response None \<Rightarrow> True
      | Response (Some t) \<Rightarrow> False)"

text \<open>The call number \<open>k\<close> raises.\<close>

definition attempt_raises :: "env \<Rightarrow> pystr \<Rightarrow> nat \<Rightarrow> bool" where
  "attempt_raises e prompt k =
     (case generate_content e k MODEL_ID prompt of
        CallRaises x \<Rightarrow> True
      | Response text \<Rightarrow> False)"

section \<open>A concrete request\<close>

definition demo_pdf :: bytes where
  "demo_pdf = ''%PDF-1.4 demo''"

definition demo_pages :: "pystr option list" where
  "demo_pages = [Some (lit ''Jane Doe''), None, Some [], Some (lit '' Python, SQL '')]"

definition demo_env :: "(nat \<Rightarrow> remote_outcome) \<Rightarrow> env" where
  "demo_env remote =
     \<lparr>PdfReader = (\<lambda>file. if file = demo_pdf then Inr (map Extracted demo_pages)
                           else Inl (Exception (lit ''EOF marker not found''))),
      generate_content = (\<lambda>k model contents. remote k),
      uuid4 = lit ''0b5c'',
      save_raises = None\<rparr>"

definition broken_pdf :: bytes where
  "broken_pdf = ''%PDF-1.7 broken''"

definition broken_pages :: "page list" where
  "broken_pages =
     [Extracted (Some (lit ''Jane Doe'')),
      ExtractRaises (Exception (lit ''Unexpected end of stream'')),
      Extracted (Some (lit ''Python, SQL''))]"

definition broken_env :: env where
  "broken_env =
     \<lparr>PdfReader = (\<lambda>file. if file = broken_pdf then Inr broken_pages
                           else Inl (Exception (lit ''EOF marker not found''))),
      generate_content = (\<lambda>k model contents. Response None),
      uuid4 = lit ''77aa'',
      save_raises = None\<rparr>"

definition demo_world :: world where
  "demo_world = \<lparr>disk = (\<lambda>p. None), remote_calls = 0, slept = [], stdout = []\<rparr>"

definition demo_request :: "bytes \<Rightarrow> pystr \<Rightarrow> request" where
  "demo_request resume_file jd =
     \<lparr>files = [lit ''resume'' \<mapsto> resume_file], form = [lit ''job_description'' \<mapsto> jd]\<rparr>"

definition always_raises :: "nat \<Rightarrow> remote_outcome" where
  "always_raises k = CallRaises (Exception (lit ''429 RESOURCE_EXHAUSTED''))"

definition always_none :: "nat \<Rightarrow> remote_outcome" where
  "always_none k = Response None"

definition third_time_lucky :: "nat \<Rightarrow> remote_outcome" where
  "third_time_lucky k =
     (if k < 2 then CallRaises (Exception (lit ''503 UNAVAILABLE''))
      else Response (Some (lit '' ATS Match: 80% '')))"

section \<open>Lemmas on the parts\<close>

lemma strip_Nil_iff: "strip s = [] \<longleftrightarrow> list_all isspace s"
proof
  assume "strip s = []"
  then have a: "\<forall>c\<in>set (dropWhile isspace s). isspace c"
    by (simp add: strip_def)
  have "dropWhile isspace s = []"
  proof (rule ccontr)
    assume n: "dropWhile isspace s \<noteq> []"
    then have "\<not> isspace (hd (dropWhile isspace s))" by (rule hd_dropWhile)
    moreover have "hd (dropWhile isspace s) \<in> set (dropWhile isspace s)" using n by simp
    ultimately show False using a by blast
  qed
  then show "list_all isspace s" by (simp add: list_all_iff)
next
  assume "list_all isspace s"
  then have d: "dropWhile isspace s = []" by (simp add: list_all_iff)
  show "strip s = []" unfolding strip_def d by simp
qed

lemma strip_Nil: "strip [] = []"
  by (simp add: strip_def)

lemma read_pages_text:
  "snd (read_pages pages acc) =
     acc @ concat (map spec_page_text (map page_text (takeWhile page_returns pages)))"
  by (induction pages acc rule: read_pages.induct)
     (auto simp: spec_page_text_def split: option.splits)

lemma read_pages_returns:
  "list_all page_returns pages \<Longrightarrow> fst (read_pages pages acc) = None"
  by (induction pages acc rule: read_pages.induct) (auto split: option.splits)

lemma extract_returns: "\<exists>t. fst (extract_text_from_pdf e p w) = Inr t"
  by (simp add: extract_text_from_pdf_def split: prod.splits option.splits)

lemma extract_frame:
  "disk (snd (extract_text_from_pdf e p w)) = disk w \<and>
   remote_calls (snd (extract_text_from_pdf e p w)) = remote_calls w \<and>
   slept (snd (extract_text_from_pdf e p w)) = slept w"
  by (simp add: extract_text_from_pdf_def split: prod.splits option.splits)

lemma attempt_fails_step:
  assumes "attempt_fails e p (remote_calls w)"
  shows "\<exists>x. attempt e p w = (Inl x, w\<lparr>remote_calls := Suc (remote_calls w)\<rparr>)"
  using assms
  by (auto simp: attempt_fails_def attempt_def Let_def split: remote_outcome.splits option.splits)

lemma attempt_succeeds_step:
  assumes "generate_content e (remote_calls w) MODEL_ID p = Response (Some t)"
  shows "attempt e p w = (Inr (strip t), w\<lparr>remote_calls := Suc (remote_calls w)\<rparr>)"
  using assms by (simp add: attempt_def Let_def)

lemma retry_loop_all_fail:
  assumes "\<forall>i<length ds. attempt_fails e p (remote_calls w + i)"
  shows "retry_loop e p ds w =
           (None, w\<lparr>remote_calls := remote_calls w + length ds, slept := slept w @ ds\<rparr>)"
  using assms
proof (induction ds arbitrary: w)
  case Nil
  then show ?case by simp
next
  case (Cons d ds)
  from Cons.prems have "attempt_fails e p (remote_calls w)" by force
  then obtain x where a: "attempt e p w = (Inl x, w\<lparr>remote_calls := Suc (remote_calls w)\<rparr>)"
    using attempt_fails_step by blast
  let ?w = "sleep d (w\<lparr>remote_calls := Suc (remote_calls w)\<rparr>)"
  have "\<forall>i<length ds. attempt_fails e p (remote_calls ?w + i)"
  proof (intro allI impI)
    fix i assume "i < length ds"
    then have "attempt_fails e p (remote_calls w + Suc i)" using Cons.prems by auto
    then show "attempt_fails e p (remote_calls ?w + i)" by (simp add: sleep_def)
  qed
  then have "retry_loop e p ds ?w =
      (None, ?w\<lparr>remote_calls := remote_calls ?w + length ds, slept := slept ?w @ ds\<rparr>)"
    by (rule Cons.IH)
  then show ?case using a by (simp add: sleep_def)
qed

lemma retry_loop_success:
  assumes "k < length ds"
    and "\<forall>i<k. attempt_fails e p (remote_calls w + i)"
    and "generate_content e (remote_calls w + k) MODEL_ID p = Response (Some t)"
  shows "retry_loop e p ds w =
           (Some (strip t),
            w\<lparr>remote_calls := remote_calls w + Suc k, slept := slept w @ take k ds\<rparr>)"
  using assms
proof (induction ds arbitrary: w k)
  case Nil
  then show ?case by simp
next
  case (Cons d ds)
  show ?case
  proof (cases k)
    case 0
    then show ?thesis using Cons.prems attempt_succeeds_step [of e w p t] by simp
  next
    case (Suc j)
    from Cons.prems Suc have "attempt_fails e p (remote_calls w)" by force
    then obtain x where a: "attempt e p w = (Inl x, w\<lparr>remote_calls := Suc (remote_calls w)\<rparr>)"
      using attempt_fails_step by blast
    let ?w = "sleep d (w\<lparr>remote_calls := Suc (remote_calls w)\<rparr>)"
    have j: "j < length ds" using Cons.prems Suc by simp
    have f: "\<forall>i<j. attempt_fails e p (remote_calls ?w + i)"
    proof (intro allI impI)
      fix i assume "i < j"
      then have "attempt_fails e p (remote_calls w + Suc i)" using Cons.prems Suc by auto
      then show "attempt_fails e p (remote_calls ?w + i)" by (simp add: sleep_def)
    qed
    have g: "generate_content e (remote_calls ?w + j) MODEL_ID p = Response (Some t)"
      using Cons.prems Suc by (simp add: sleep_def)
    have "retry_loop e p ds ?w =
        (Some (strip t), ?w\<lparr>remote_calls := remote_calls ?w + Suc j, slept := slept ?w @ take j ds\<rparr>)"
      using j f g by (rule Cons.IH)
    then show ?thesis using a Suc by (simp add: sleep_def)
  qed
qed

lemma retry_loop_frame:
  "remote_calls (snd (retry_loop e p ds w)) \<le> remote_calls w + length ds \<and>
   remote_calls w \<le> remote_calls (snd (retry_loop e p ds w)) \<and>
   disk (snd (retry_loop e p ds w)) = disk w"
proof (induction ds arbitrary: w)
  case Nil
  then show ?case by simp
next
  case (Cons d ds)
  obtain r w1 where a: "attempt e p w = (r, w1)" by (cases "attempt e p w")
  then have w1: "remote_calls w1 = Suc (remote_calls w)" "disk w1 = disk w"
    by (auto simp: attempt_def Let_def split: remote_outcome.splits option.splits)
  show ?case
  proof (cases r)
    case (Inr v)
    then show ?thesis using a w1 by simp
  next
    case (Inl x)
    have s: "remote_calls (sleep d w1) = Suc (remote_calls w)" "disk (sleep d w1) = disk w"
      using w1 by (simp_all add: sleep_def)
    show ?thesis using a Inl Cons.IH [of "sleep d w1"] s by simp
  qed
qed

lemma run_ats_engine_returns: "\<exists>s. fst (run_ats_engine e r j w) = Inr s"
  by (simp add: run_ats_engine_def split: prod.splits option.splits)

lemma run_ats_engine_frame:
  "remote_calls (snd (run_ats_engine e r j w)) \<le> remote_calls w + 5 \<and>
   remote_calls w \<le> remote_calls (snd (run_ats_engine e r j w)) \<and>
   disk (snd (run_ats_engine e r j w)) = disk w"
proof -
  have "snd (run_ats_engine e r j w) = snd (retry_loop e (build_prompt r j) delays w)"
    by (simp add: run_ats_engine_def split: prod.splits option.splits)
  then show ?thesis using retry_loop_frame [of e "build_prompt r j" delays w]
    by (simp add: delays_def)
qed

lemma run_ats_engine_all_fail:
  assumes "\<forall>i<5. attempt_fails e (build_prompt r j) (remote_calls w + i)"
  shows "run_ats_engine e r j w =
           (Inr fallback, w\<lparr>remote_calls := remote_calls w + 5, slept := slept w @ delays\<rparr>)"
proof -
  have "\<forall>i<length delays. attempt_fails e (build_prompt r j) (remote_calls w + i)"
    using assms by (simp add: delays_def)
  then show ?thesis
    using retry_loop_all_fail [of delays e "build_prompt r j" w]
    by (simp add: run_ats_engine_def delays_def)
qed

lemma run_ats_engine_success:
  assumes "k < 5"
    and "\<forall>i<k. attempt_fails e (build_prompt r j) (remote_calls w + i)"
    and "generate_content e (remote_calls w + k) MODEL_ID (build_prompt r j) = Response (Some t)"
  shows "run_ats_engine e r j w =
           (Inr (strip t),
            w\<lparr>remote_calls := remote_calls w + Suc k, slept := slept w @ take k delays\<rparr>)"
proof -
  have "k < length delays" using assms(1) by (simp add: delays_def)
  then show ?thesis
    using retry_loop_success [of k delays e "build_prompt r j" w t] assms(2,3)
    by (simp add: run_ats_engine_def)
qed

lemma analyze_no_resume:
  assumes "files req (lit ''resume'') = None"
  shows "analyze e req w = (error_response ''Resume file missing'' 400, w)"
  using assms by (simp add: analyze_def)

lemma analyze_blank_jd:
  assumes "files req (lit ''resume'') = Some resume_file"
    and "list_all isspace (form_get req ''job_description'' [])"
  shows "analyze e req w = (error_response ''Job description required'' 400, w)"
  using assms by (simp add: analyze_def strip_Nil_iff)

lemma save_ok:
  assumes "save_raises e = None"
  shows "save e resume_file p w = (Inr (), w\<lparr>disk := (disk w)(p \<mapsto> resume_file)\<rparr>)"
  using assms by (simp add: save_def)

lemma analyze_extraction_empty:
  assumes "files req (lit ''resume'') = Some resume_file"
    and "strip (form_get req ''job_description'' []) \<noteq> []"
    and "save_raises e = None"
    and "extract_text_from_pdf e (pdf_path_of e)
           (w\<lparr>disk := (disk w)(pdf_path_of e \<mapsto> resume_file)\<rparr>) = (Inr [], w2)"
  shows "analyze e req w =
           (error_response ''Could not extract text from the uploaded PDF'' 400,
            remove_if_exists (pdf_path_of e) w2)"
  using assms by (simp add: analyze_def analyze_try_def save_def Let_def)

lemma analyze_reaches_engine:
  assumes "files req (lit ''resume'') = Some resume_file"
    and "strip (form_get req ''job_description'' []) = jd_text"
    and "jd_text \<noteq> []"
    and "save_raises e = None"
    and "extract_text_from_pdf e (pdf_path_of e)
           (w\<lparr>disk := (disk w)(pdf_path_of e \<mapsto> resume_file)\<rparr>) = (Inr resume_text, w2)"
    and "resume_text \<noteq> []"
    and "run_ats_engine e resume_text jd_text w2 = (Inr ats_result, w3)"
  shows "analyze e req w =
           (\<lparr>status = 200,
             json = [(lit ''parsed_resume'', take 3000 resume_text),
                     (lit ''parsed_job_description'', take 3000 jd_text),
                     (lit ''ats_result'', ats_result)]\<rparr>,
            remove_if_exists (pdf_path_of e) w3)"
  using assms by (simp add: analyze_def analyze_try_def save_def Let_def)

lemma analyze_200_cases:
  assumes "status (fst (analyze e req w)) = 200"
  shows "\<exists>resume_file resume_text w2 ats_result w3.
           files req (lit ''resume'') = Some resume_file \<and>
           strip (form_get req ''job_description'' []) \<noteq> [] \<and>
           save_raises e = None \<and>
           extract_text_from_pdf e (pdf_path_of e)
             (w\<lparr>disk := (disk w)(pdf_path_of e \<mapsto> resume_file)\<rparr>) = (Inr resume_text, w2) \<and>
           resume_text \<noteq> [] \<and>
           run_ats_engine e resume_text (strip (form_get req ''job_description'' [])) w2 =
             (Inr ats_result, w3)"
  using assms
  by (auto simp: analyze_def analyze_try_def save_def Let_def error_response_def
           split: option.splits if_splits prod.splits sum.splits)

lemma remove_if_exists_disk: "disk (remove_if_exists p w) = (disk w)(p := None)"
  by (auto simp: remove_if_exists_def)

lemma attempt_raises_fails: "attempt_raises e p k \<Longrightarrow> attempt_fails e p k"
  by (simp add: attempt_raises_def attempt_fails_def split: remote_outcome.splits)

lemma response_none_fails:
  "generate_content e k MODEL_ID p = Response None \<Longrightarrow> attempt_fails e p k"
  by (simp add: attempt_fails_def)

lemma analyze_absorbs_remote_failure:
  assumes "files req (lit ''resume'') = Some resume_file"
    and "strip (form_get req ''job_description'' []) = jd_text"
    and "jd_text \<noteq> []"
    and "save_raises e = None"
    and "extract_text_from_pdf e (pdf_path_of e) (snd (save e resume_file (pdf_path_of e) w)) =
           (Inr resume_text, w2)"
    and "resume_text \<noteq> []"
  shows "status (fst (analyze e req w)) = 200 \<and>
         ((\<forall>i<5. attempt_raises e (build_prompt resume_text jd_text) (remote_calls w + i)) \<longrightarrow>
            fst (run_ats_engine e resume_text jd_text w2) = Inr fallback \<and>
            json_field (fst (analyze e req w)) ''ats_result'' = Some fallback)"
proof -
  let ?w1 = "w\<lparr>disk := (disk w)(pdf_path_of e \<mapsto> resume_file)\<rparr>"
  have x: "extract_text_from_pdf e (pdf_path_of e) ?w1 = (Inr resume_text, w2)"
    using assms(4,5) by (simp add: save_ok)
  have c: "remote_calls w2 = remote_calls w"
    using extract_frame [of e "pdf_path_of e" ?w1] x by simp
  obtain ats_result w3 where r: "run_ats_engine e resume_text jd_text w2 = (Inr ats_result, w3)"
    using run_ats_engine_returns [of e resume_text jd_text w2]
    by (cases "run_ats_engine e resume_text jd_text w2") auto
  have a: "analyze e req w =
      (\<lparr>status = 200,
        json = [(lit ''parsed_resume'', take 3000 resume_text),
                (lit ''parsed_job_description'', take 3000 jd_text),
                (lit ''ats_result'', ats_result)]\<rparr>,
       remove_if_exists (pdf_path_of e) w3)"
    using assms(1,2,3,4) x assms(6) r by (rule analyze_reaches_engine)
  have k: "lit ''ats_result'' \<noteq> lit ''parsed_resume''"
    "lit ''ats_result'' \<noteq> lit ''parsed_job_description''"
    by (simp_all add: lit_def)
  have f: "json_field (fst (analyze e req w)) ''ats_result'' = Some ats_result"
    unfolding a using k by (simp add: json_field_def)
  have "fst (run_ats_engine e resume_text jd_text w2) = Inr fallback \<and>
        json_field (fst (analyze e req w)) ''ats_result'' = Some fallback"
    if all: "\<forall>i<5. attempt_raises e (build_prompt resume_text jd_text) (remote_calls w + i)"
  proof -
    have "\<forall>i<5. attempt_fails e (build_prompt resume_text jd_text) (remote_calls w2 + i)"
      using all c by (simp add: attempt_raises_fails)
    then have "fst (run_ats_engine e resume_text jd_text w2) = Inr fallback"
      by (simp add: run_ats_engine_all_fail)
    then show ?thesis using r f by simp
  qed
  then show ?thesis using a by simp
qed

section \<open>The claims\<close>

text \<open>
  Claim C4, as amended. When the file opens and \<open>PdfReader\<close> gives its pages,
  \<open>extract_text_from_pdf\<close> returns the texts of the pages that come before the first
  page on which the iteration or \<open>extract_text\<close> raises (of all pages when none
  raises), in page order, each followed by a newline, a page with no text (\<open>None\<close> or
  empty) adding nothing, the whole trimmed of leading and trailing whitespace. When no
  page raises, the world is left as it was.
\<close>

theorem extract_text_from_pdf_concatenates_pages:
  assumes "disk w pdf_path = Some file"
    and "PdfReader e file = Inr pages"
  shows "fst (extract_text_from_pdf e pdf_path w) =
           Inr (spec_extracted_text (map page_text (takeWhile page_returns pages))) \<and>
         (list_all page_returns pages \<longrightarrow>
            extract_text_from_pdf e pdf_path w =
              (Inr (spec_extracted_text (map page_text pages)), w))"
proof -
  obtain x t where r: "read_pages pages [] = (x, t)"
    by (cases "read_pages pages []")
  have t: "t = concat (map spec_page_text (map page_text (takeWhile page_returns pages)))"
    using read_pages_text [of pages "[]"] r by simp
  have a: "fst (extract_text_from_pdf e pdf_path w) =
           Inr (spec_extracted_text (map page_text (takeWhile page_returns pages)))"
    using assms r t
    by (simp add: extract_text_from_pdf_def extract_try_def spec_extracted_text_def
          split: option.splits)
  have b: "extract_text_from_pdf e pdf_path w =
              (Inr (spec_extracted_text (map page_text pages)), w)"
    if all: "list_all page_returns pages"
  proof -
    have n: "x = None" using read_pages_returns [of pages "[]"] r all by simp
    have tw: "takeWhile page_returns pages = pages"
      using all by (simp add: list_all_iff)
    have t': "t = concat (map spec_page_text (map page_text pages))"
      using t unfolding tw .
    show ?thesis
      using assms r n t'
      by (simp add: extract_text_from_pdf_def extract_try_def spec_extracted_text_def)
  qed
  show ?thesis using a b by simp
qed

theorem extract_text_from_pdf_concatenates_pages_witness:
  "fst (extract_text_from_pdf (demo_env always_raises) (lit ''uploads/cv.pdf'')
          (demo_world\<lparr>disk := [lit ''uploads/cv.pdf'' \<mapsto> demo_pdf]\<rparr>)) =
     Inr (lit ''Jane Doe'' @ [10] @ lit '' Python, SQL'') \<and>
   fst (extract_text_from_pdf broken_env (lit ''uploads/cv.pdf'')
          (demo_world\<lparr>disk := [lit ''uploads/cv.pdf'' \<mapsto> broken_pdf]\<rparr>)) =
     Inr (lit ''Jane Doe'')"
proof -
  let ?w = "demo_world\<lparr>disk := [lit ''uploads/cv.pdf'' \<mapsto> demo_pdf]\<rparr>"
  let ?b = "demo_world\<lparr>disk := [lit ''uploads/cv.pdf'' \<mapsto> broken_pdf]\<rparr>"
  have h1: "disk ?w (lit ''uploads/cv.pdf'') = Some demo_pdf" by simp
  have h2: "PdfReader (demo_env always_raises) demo_pdf = Inr (map Extracted demo_pages)"
    by (simp add: demo_env_def)
  have v: "spec_extracted_text
             (map page_text (takeWhile page_returns (map Extracted demo_pages))) =
           lit ''Jane Doe'' @ [10] @ lit '' Python, SQL''"
    by (simp add: spec_extracted_text_def spec_page_text_def demo_pages_def strip_def
          isspace_def lit_def)
  have g1: "disk ?b (lit ''uploads/cv.pdf'') = Some broken_pdf" by simp
  have g2: "PdfReader broken_env broken_pdf = Inr broken_pages"
    by (simp add: broken_env_def)
  have u: "spec_extracted_text (map page_text (takeWhile page_returns broken_pages)) =
           lit ''Jane Doe''"
    by (simp add: spec_extracted_text_def spec_page_text_def broken_pages_def strip_def
          isspace_def lit_def)
  show ?thesis
    using extract_text_from_pdf_concatenates_pages [OF h1 h2]
      extract_text_from_pdf_concatenates_pages [OF g1 g2] v u
    by simp
qed

text \<open>
  The claim as it is written fails on a document whose three pages are all enumerated
  and whose second page makes \<open>extract_text\<close> raise: the text of the third page is
  not in the result.
\<close>

theorem extract_text_from_pdf_concatenates_pages_counterexample:
  "disk (demo_world\<lparr>disk := [lit ''uploads/cv.pdf'' \<mapsto> broken_pdf]\<rparr>)
     (lit ''uploads/cv.pdf'') = Some broken_pdf \<and>
   PdfReader broken_env broken_pdf = Inr broken_pages \<and>
   list_all page_enumerated broken_pages \<and>
   spec_extracted_text (map page_text broken_pages) =
     lit ''Jane Doe'' @ [10] @ lit ''Python, SQL'' \<and>
   fst (extract_text_from_pdf broken_env (lit ''uploads/cv.pdf'')
          (demo_world\<lparr>disk := [lit ''uploads/cv.pdf'' \<mapsto> broken_pdf]\<rparr>)) =
     Inr (lit ''Jane Doe'') \<and>
   fst (extract_text_from_pdf broken_env (lit ''uploads/cv.pdf'')
          (demo_world\<lparr>disk := [lit ''uploads/cv.pdf'' \<mapsto> broken_pdf]\<rparr>)) \<noteq>
     Inr (spec_extracted_text (map page_text broken_pages))"
  by (simp add: extract_text_from_pdf_def extract_try_def broken_env_def broken_pages_def
        spec_extracted_text_def spec_page_text_def strip_def isspace_def lit_def)

text \<open>
  Claim C7. \<open>extract_text_from_pdf\<close> returns a string for every path, environment and
  world: it never hands an exception to its caller. When the file cannot be opened, or
  \<open>PdfReader\<close> raises on it, the string is empty.
\<close>

theorem extract_text_from_pdf_never_raises:
  "(\<exists>t. fst (extract_text_from_pdf e pdf_path w) = Inr t) \<and>
   (disk w pdf_path = None \<longrightarrow> fst (extract_text_from_pdf e pdf_path w) = Inr []) \<and>
   (\<forall>file x. disk w pdf_path = Some file \<and> PdfReader e file = Inl x \<longrightarrow>
      fst (extract_text_from_pdf e pdf_path w) = Inr [])"
proof (intro conjI)
  show "\<exists>t. fst (extract_text_from_pdf e pdf_path w) = Inr t" by (rule extract_returns)
  show "disk w pdf_path = None \<longrightarrow> fst (extract_text_from_pdf e pdf_path w) = Inr []"
    by (simp add: extract_text_from_pdf_def extract_try_def strip_Nil)
  show "\<forall>file x. disk w pdf_path = Some file \<and> PdfReader e file = Inl x \<longrightarrow>
      fst (extract_text_from_pdf e pdf_path w) = Inr []"
    by (simp add: extract_text_from_pdf_def extract_try_def strip_Nil)
qed

theorem extract_text_from_pdf_never_raises_witness:
  "fst (extract_text_from_pdf (demo_env always_raises) (lit ''uploads/gone.pdf'') demo_world) =
     Inr [] \<and>
   fst (extract_text_from_pdf (demo_env always_raises) (lit ''uploads/bad.pdf'')
          (demo_world\<lparr>disk := [lit ''uploads/bad.pdf'' \<mapsto> ''not a pdf'']\<rparr>)) = Inr []"
proof -
  have a: "disk demo_world (lit ''uploads/gone.pdf'') = None"
    by (simp add: demo_world_def)
  let ?w = "demo_world\<lparr>disk := [lit ''uploads/bad.pdf'' \<mapsto> ''not a pdf'']\<rparr>"
  have b: "disk ?w (lit ''uploads/bad.pdf'') = Some ''not a pdf'' \<and>
           PdfReader (demo_env always_raises) ''not a pdf'' =
             Inl (Exception (lit ''EOF marker not found''))"
    by (simp add: demo_env_def demo_pdf_def)
  show ?thesis
    using a b
      extract_text_from_pdf_never_raises
        [of "demo_env always_raises" "lit ''uploads/gone.pdf''" demo_world]
      extract_text_from_pdf_never_raises
        [of "demo_env always_raises" "lit ''uploads/bad.pdf''" ?w]
    by blast
qed

text \<open>
  Claim C6. A request without a \<open>resume\<close> file part is answered 400 with the error
  \<open>Resume file missing\<close>. A request with that part whose \<open>job_description\<close> field is
  absent, empty or made of whitespace only is answered 400 with the error
  \<open>Job description required\<close>.
\<close>

theorem analyze_rejects_missing_input:
  "(files req (lit ''resume'') = None \<longrightarrow>
      fst (analyze e req w) =
        \<lparr>status = 400, json = [(lit ''error'', lit ''Resume file missing'')]\<rparr>) \<and>
   (files req (lit ''resume'') \<noteq> None \<and>
    list_all isspace (form_get req ''job_description'' []) \<longrightarrow>
      fst (analyze e req w) =
        \<lparr>status = 400, json = [(lit ''error'', lit ''Job description required'')]\<rparr>)"
proof (intro conjI impI)
  assume "files req (lit ''resume'') = None"
  then show "fst (analyze e req w) =
      \<lparr>status = 400, json = [(lit ''error'', lit ''Resume file missing'')]\<rparr>"
    by (simp add: analyze_no_resume error_response_def)
next
  assume a: "files req (lit ''resume'') \<noteq> None \<and>
    list_all isspace (form_get req ''job_description'' [])"
  then obtain resume_file where "files req (lit ''resume'') = Some resume_file" by auto
  with a show "fst (analyze e req w) =
      \<lparr>status = 400, json = [(lit ''error'', lit ''Job description required'')]\<rparr>"
    by (simp add: analyze_blank_jd error_response_def)
qed

theorem analyze_rejects_missing_input_witness:
  "fst (analyze (demo_env always_raises)
          \<lparr>files = Map.empty, form = [lit ''job_description'' \<mapsto> lit ''Python developer'']\<rparr>
          demo_world) =
     \<lparr>status = 400, json = [(lit ''error'', lit ''Resume file missing'')]\<rparr> \<and>
   fst (analyze (demo_env always_raises) (demo_request demo_pdf (lit '' ''))
          demo_world) =
     \<lparr>status = 400, json = [(lit ''error'', lit ''Job description required'')]\<rparr> \<and>
   fst (analyze (demo_env always_raises)
          \<lparr>files = [lit ''resume'' \<mapsto> demo_pdf], form = Map.empty\<rparr> demo_world) =
     \<lparr>status = 400, json = [(lit ''error'', lit ''Job description required'')]\<rparr>"
proof -
  let ?r1 = "\<lparr>files = Map.empty, form = [lit ''job_description'' \<mapsto> lit ''Python developer'']\<rparr>"
  let ?r2 = "demo_request demo_pdf (lit '' '')"
  let ?r3 = "\<lparr>files = [lit ''resume'' \<mapsto> demo_pdf], form = Map.empty\<rparr>"
  have h1: "files ?r1 (lit ''resume'') = None" by simp
  have h2: "files ?r2 (lit ''resume'') \<noteq> None \<and>
            list_all isspace (form_get ?r2 ''job_description'' [])"
    by (simp add: demo_request_def form_get_def isspace_def lit_def)
  have h3: "files ?r3 (lit ''resume'') \<noteq> None \<and>
            list_all isspace (form_get ?r3 ''job_description'' [])"
    by (simp add: form_get_def)
  show ?thesis
    using h1 h2 h3
      analyze_rejects_missing_input [of ?r1 "demo_env always_raises" demo_world]
      analyze_rejects_missing_input [of ?r2 "demo_env always_raises" demo_world]
      analyze_rejects_missing_input [of ?r3 "demo_env always_raises" demo_world]
    by blast
qed

text \<open>
  Claim C9. A request that fails validation (no \<open>resume\<close> part, or a job description
  that is absent, empty or whitespace) is answered 400 with the world unchanged: no
  file is written, the remote service is not called, nothing sleeps.
\<close>

theorem analyze_validation_failure_changes_nothing:
  assumes "files req (lit ''resume'') = None \<or>
           list_all isspace (form_get req ''job_description'' [])"
  shows "snd (analyze e req w) = w \<and> status (fst (analyze e req w)) = 400"
proof (cases "files req (lit ''resume'')")
  case None
  then show ?thesis by (simp add: analyze_no_resume error_response_def)
next
  case (Some resume_file)
  with assms have "list_all isspace (form_get req ''job_description'' [])" by simp
  with Some show ?thesis by (simp add: analyze_blank_jd error_response_def)
qed

theorem analyze_validation_failure_changes_nothing_witness:
  "snd (analyze (demo_env third_time_lucky)
          (demo_request demo_pdf [9, 32, 10, 160, 8195]) demo_world) = demo_world \<and>
   status (fst (analyze (demo_env third_time_lucky)
          (demo_request demo_pdf [9, 32, 10, 160, 8195]) demo_world)) = 400"
proof -
  have h: "files (demo_request demo_pdf [9, 32, 10, 160, 8195]) (lit ''resume'') = None \<or>
        list_all isspace (form_get (demo_request demo_pdf [9, 32, 10, 160, 8195])
                            ''job_description'' [])"
    by (simp add: demo_request_def form_get_def isspace_def)
  show ?thesis
    using analyze_validation_failure_changes_nothing [OF h] by simp
qed

text \<open>
  Claim C5. When the upload is saved and the extraction gives the empty string, the handler
  answers 400 with \<open>Could not extract text from the uploaded PDF\<close>, the saved file is
  gone from the disk, and no call of the remote service was made (nor any sleep).
\<close>

theorem analyze_extraction_failed:
  assumes "files req (lit ''resume'') = Some resume_file"
    and "strip (form_get req ''job_description'' []) \<noteq> []"
    and "save_raises e = None"
    and "fst (extract_text_from_pdf e (pdf_path_of e)
                (snd (save e resume_file (pdf_path_of e) w))) = Inr []"
  shows "fst (analyze e req w) =
           \<lparr>status = 400,
            json = [(lit ''error'', lit ''Could not extract text from the uploaded PDF'')]\<rparr> \<and>
         disk (snd (analyze e req w)) (pdf_path_of e) = None \<and>
         remote_calls (snd (analyze e req w)) = remote_calls w \<and>
         slept (snd (analyze e req w)) = slept w"
proof -
  let ?w1 = "w\<lparr>disk := (disk w)(pdf_path_of e \<mapsto> resume_file)\<rparr>"
  have s: "snd (save e resume_file (pdf_path_of e) w) = ?w1"
    using assms(3) by (simp add: save_ok)
  obtain w2 where x: "extract_text_from_pdf e (pdf_path_of e) ?w1 = (Inr [], w2)"
    using assms(4) s by (cases "extract_text_from_pdf e (pdf_path_of e) ?w1") simp
  have a: "analyze e req w =
      (error_response ''Could not extract text from the uploaded PDF'' 400,
       remove_if_exists (pdf_path_of e) w2)"
    using assms(1,2,3) x by (rule analyze_extraction_empty)
  have w2: "remote_calls w2 = remote_calls w" "slept w2 = slept w"
    using extract_frame [of e "pdf_path_of e" ?w1] x by simp_all
  show ?thesis using a w2
    by (simp add: error_response_def remove_if_exists_disk)
       (simp add: remove_if_exists_def)
qed

theorem analyze_extraction_failed_witness:
  "fst (analyze (demo_env always_raises) (demo_request ''not a pdf'' (lit ''Python developer''))
          demo_world) =
     \<lparr>status = 400,
      json = [(lit ''error'', lit ''Could not extract text from the uploaded PDF'')]\<rparr> \<and>
   disk (snd (analyze (demo_env always_raises)
                (demo_request ''not a pdf'' (lit ''Python developer'')) demo_world))
     (pdf_path_of (demo_env always_raises)) = None \<and>
   remote_calls (snd (analyze (demo_env always_raises)
                (demo_request ''not a pdf'' (lit ''Python developer'')) demo_world)) = 0"
proof -
  let ?e = "demo_env always_raises"
  let ?r = "demo_request ''not a pdf'' (lit ''Python developer'')"
  have h1: "files ?r (lit ''resume'') = Some ''not a pdf''"
    by (simp add: demo_request_def)
  have h2: "strip (form_get ?r ''job_description'' []) \<noteq> []"
    by (simp add: demo_request_def form_get_def strip_def isspace_def lit_def)
  have h3: "save_raises ?e = None"
    by (simp add: demo_env_def)
  have h4: "fst (extract_text_from_pdf ?e (pdf_path_of ?e)
                  (snd (save ?e ''not a pdf'' (pdf_path_of ?e) demo_world))) = Inr []"
    by (simp add: extract_text_from_pdf_def extract_try_def save_def demo_env_def
          demo_pdf_def strip_def)
  have c: "remote_calls demo_world = 0"
    by (simp add: demo_world_def)
  show ?thesis
    using analyze_extraction_failed [OF h1 h2 h3 h4] c by simp
qed

text \<open>
  Claim C8. After a request answered 200, the file saved for it under \<open>pdf_path\<close> is not on
  the disk, and every other path of the disk is as it was before the request.
\<close>

theorem analyze_success_removes_temp_file:
  assumes "status (fst (analyze e req w)) = 200"
  shows "disk (snd (analyze e req w)) (pdf_path_of e) = None \<and>
         (\<forall>p. p \<noteq> pdf_path_of e \<longrightarrow> disk (snd (analyze e req w)) p = disk w p)"
proof -
  from analyze_200_cases [OF assms]
  obtain resume_file resume_text w2 ats_result w3 where
    f: "files req (lit ''resume'') = Some resume_file"
    and j: "strip (form_get req ''job_description'' []) \<noteq> []"
    and s: "save_raises e = None"
    and x: "extract_text_from_pdf e (pdf_path_of e)
              (w\<lparr>disk := (disk w)(pdf_path_of e \<mapsto> resume_file)\<rparr>) = (Inr resume_text, w2)"
    and n: "resume_text \<noteq> []"
    and r: "run_ats_engine e resume_text (strip (form_get req ''job_description'' [])) w2 =
              (Inr ats_result, w3)"
    by blast
  have a: "snd (analyze e req w) = remove_if_exists (pdf_path_of e) w3"
    using analyze_reaches_engine [OF f refl j s x n r] by simp
  have "disk w2 = (disk w)(pdf_path_of e \<mapsto> resume_file)"
    using extract_frame [of e "pdf_path_of e" "w\<lparr>disk := (disk w)(pdf_path_of e \<mapsto> resume_file)\<rparr>"] x
    by simp
  moreover have "disk w3 = disk w2"
    using run_ats_engine_frame [of e resume_text "strip (form_get req ''job_description'' [])" w2] r
    by simp
  ultimately have "disk (snd (analyze e req w)) = (disk w)(pdf_path_of e := None)"
    using a by (simp add: remove_if_exists_disk)
  then show ?thesis by simp
qed

theorem analyze_success_removes_temp_file_witness:
  "disk (snd (analyze (demo_env third_time_lucky)
                (demo_request demo_pdf (lit '' Python developer ''))
                (demo_world\<lparr>disk := [lit ''uploads/other.pdf'' \<mapsto> ''kept'']\<rparr>)))
     (pdf_path_of (demo_env third_time_lucky)) = None \<and>
   disk (snd (analyze (demo_env third_time_lucky)
                (demo_request demo_pdf (lit '' Python developer ''))
                (demo_world\<lparr>disk := [lit ''uploads/other.pdf'' \<mapsto> ''kept'']\<rparr>)))
     (lit ''uploads/other.pdf'') = Some ''kept''"
proof -
  let ?e = "demo_env third_time_lucky"
  let ?r = "demo_request demo_pdf (lit '' Python developer '')"
  let ?w = "demo_world\<lparr>disk := [lit ''uploads/other.pdf'' \<mapsto> ''kept'']\<rparr>"
  have h: "status (fst (analyze ?e ?r ?w)) = 200"
    by (simp add: analyze_def analyze_try_def save_def extract_text_from_pdf_def extract_try_def
          run_ats_engine_def attempt_def sleep_def delays_def remove_if_exists_def
          form_get_def demo_env_def demo_request_def demo_world_def demo_pdf_def
          demo_pages_def strip_def isspace_def lit_def Let_def third_time_lucky_def)
  have n: "lit ''uploads/other.pdf'' \<noteq> pdf_path_of ?e"
    by (simp add: pdf_path_of_def path_join_def UPLOAD_FOLDER_def demo_env_def lit_def)
  show ?thesis
    using analyze_success_removes_temp_file [OF h] n by simp
qed

text \<open>
  Claim C3. In every response with status 200, \<open>parsed_resume\<close> is the first 3000
  characters of the text extracted from the saved upload, \<open>parsed_job_description\<close> is
  the first 3000 characters of the trimmed job description, and when the trimmed job
  description is longer than 3000 characters that field has exactly 3000.
\<close>

theorem analyze_success_truncates:
  assumes "status (fst (analyze e req w)) = 200"
  shows "\<exists>resume_file resume_text.
           files req (lit ''resume'') = Some resume_file \<and>
           fst (extract_text_from_pdf e (pdf_path_of e)
                  (snd (save e resume_file (pdf_path_of e) w))) = Inr resume_text \<and>
           json_field (fst (analyze e req w)) ''parsed_resume'' =
             Some (take 3000 resume_text) \<and>
           json_field (fst (analyze e req w)) ''parsed_job_description'' =
             Some (take 3000 (strip (form_get req ''job_description'' []))) \<and>
           (3000 < length (strip (form_get req ''job_description'' [])) \<longrightarrow>
              (\<exists>v. json_field (fst (analyze e req w)) ''parsed_job_description'' = Some v \<and>
                   length v = 3000))"
proof -
  from analyze_200_cases [OF assms]
  obtain resume_file resume_text w2 ats_result w3 where
    f: "files req (lit ''resume'') = Some resume_file"
    and j: "strip (form_get req ''job_description'' []) \<noteq> []"
    and s: "save_raises e = None"
    and x: "extract_text_from_pdf e (pdf_path_of e)
              (w\<lparr>disk := (disk w)(pdf_path_of e \<mapsto> resume_file)\<rparr>) = (Inr resume_text, w2)"
    and n: "resume_text \<noteq> []"
    and r: "run_ats_engine e resume_text (strip (form_get req ''job_description'' [])) w2 =
              (Inr ats_result, w3)"
    by blast
  have a: "fst (analyze e req w) =
      \<lparr>status = 200,
       json = [(lit ''parsed_resume'', take 3000 resume_text),
               (lit ''parsed_job_description'',
                take 3000 (strip (form_get req ''job_description'' []))),
               (lit ''ats_result'', ats_result)]\<rparr>"
    using analyze_reaches_engine [OF f refl j s x n r] by simp
  have k: "lit ''parsed_job_description'' \<noteq> lit ''parsed_resume''"
    by (simp add: lit_def)
  have e1: "fst (extract_text_from_pdf e (pdf_path_of e)
                  (snd (save e resume_file (pdf_path_of e) w))) = Inr resume_text"
    using x s by (simp add: save_ok)
  have p1: "json_field (fst (analyze e req w)) ''parsed_resume'' = Some (take 3000 resume_text)"
    unfolding a by (simp add: json_field_def)
  have p2: "json_field (fst (analyze e req w)) ''parsed_job_description'' =
             Some (take 3000 (strip (form_get req ''job_description'' [])))"
    unfolding a using k by (simp add: json_field_def)
  have p3: "3000 < length (strip (form_get req ''job_description'' [])) \<longrightarrow>
              (\<exists>v. json_field (fst (analyze e req w)) ''parsed_job_description'' = Some v \<and>
                   length v = 3000)"
    unfolding p2 by simp
  show ?thesis using f e1 p1 p2 p3 by blast
qed

theorem analyze_success_truncates_witness:
  "length (strip (form_get (demo_request demo_pdf (replicate 3001 97))
                    ''job_description'' [])) = 3001 \<and>
   json_field (fst (analyze (demo_env third_time_lucky)
                      (demo_request demo_pdf (replicate 3001 97)) demo_world))
     ''parsed_job_description'' = Some (replicate 3000 97) \<and>
   json_field (fst (analyze (demo_env third_time_lucky)
                      (demo_request demo_pdf (replicate 3001 97)) demo_world))
     ''parsed_resume'' = Some (lit ''Jane Doe'' @ [10] @ lit '' Python, SQL'')"
proof -
  let ?e = "demo_env third_time_lucky"
  let ?r = "demo_request demo_pdf (replicate 3001 97)"
  have j: "strip (form_get ?r ''job_description'' []) = replicate 3001 97"
    by (simp add: demo_request_def form_get_def strip_def isspace_def)
  let ?t = "lit ''Jane Doe'' @ [10] @ lit '' Python, SQL''"
  let ?w1 = "demo_world\<lparr>disk := (disk demo_world)(pdf_path_of ?e \<mapsto> demo_pdf)\<rparr>"
  have f0: "files ?r (lit ''resume'') = Some demo_pdf"
    by (simp add: demo_request_def)
  have n0: "replicate 3001 (97::nat) \<noteq> []"
    by simp
  have s0: "save_raises ?e = None"
    by (simp add: demo_env_def)
  have x0: "extract_text_from_pdf ?e (pdf_path_of ?e) ?w1 = (Inr ?t, ?w1)"
    by (simp add: extract_text_from_pdf_def extract_try_def demo_env_def
          demo_pages_def strip_def isspace_def lit_def)
  have t0: "?t \<noteq> []"
    by (simp add: lit_def)
  obtain ats_result w3 where
    r0: "run_ats_engine ?e ?t (replicate 3001 97) ?w1 = (Inr ats_result, w3)"
    using run_ats_engine_returns [of ?e ?t "replicate 3001 97" ?w1]
    by (cases "run_ats_engine ?e ?t (replicate 3001 97) ?w1") auto
  have h: "status (fst (analyze ?e ?r demo_world)) = 200"
    using analyze_reaches_engine [OF f0 j n0 s0 x0 t0 r0] by simp
  from analyze_success_truncates [OF h]
  obtain resume_file resume_text where
    f: "files ?r (lit ''resume'') = Some resume_file"
    and x: "fst (extract_text_from_pdf ?e (pdf_path_of ?e)
                   (snd (save ?e resume_file (pdf_path_of ?e) demo_world))) = Inr resume_text"
    and p1: "json_field (fst (analyze ?e ?r demo_world)) ''parsed_resume'' =
               Some (take 3000 resume_text)"
    and p2: "json_field (fst (analyze ?e ?r demo_world)) ''parsed_job_description'' =
               Some (take 3000 (strip (form_get ?r ''job_description'' [])))"
    by blast
  have "resume_file = demo_pdf"
    using f by (simp add: demo_request_def)
  then have "resume_text = lit ''Jane Doe'' @ [10] @ lit '' Python, SQL''"
    using x
    by (simp add: extract_text_from_pdf_def extract_try_def save_def demo_env_def
          demo_pages_def strip_def isspace_def lit_def)
  then show ?thesis using p1 p2 j by (simp add: lit_def)
qed

text \<open>
  Claim C1. When each of the five calls of the remote service raises,
  \<open>run_ats_engine\<close> returns the fallback string as an ordinary result. Once the
  upload is saved and its text is not empty, the handler answers 200 whatever the
  remote service does, and when each of the five calls raises the \<open>ats_result\<close> field
  of that response is the fallback string.
\<close>

theorem remote_failure_is_absorbed:
  "((\<forall>i<5. attempt_raises e (build_prompt r j) (remote_calls w0 + i)) \<longrightarrow>
      fst (run_ats_engine e r j w0) =
        Inr (lit ''Error: AI engine is currently overloaded. Please try again in 30 seconds.'')) \<and>
   (files req (lit ''resume'') = Some resume_file \<and>
    strip (form_get req ''job_description'' []) = jd_text \<and> jd_text \<noteq> [] \<and>
    save_raises e = None \<and>
    extract_text_from_pdf e (pdf_path_of e) (snd (save e resume_file (pdf_path_of e) w)) =
      (Inr resume_text, w2) \<and>
    resume_text \<noteq> [] \<longrightarrow>
      status (fst (analyze e req w)) = 200 \<and>
      ((\<forall>i<5. attempt_raises e (build_prompt resume_text jd_text) (remote_calls w + i)) \<longrightarrow>
         json_field (fst (analyze e req w)) ''ats_result'' =
           Some (lit ''Error: AI engine is currently overloaded. Please try again in 30 seconds.'')))"
proof (intro conjI impI)
  assume "\<forall>i<5. attempt_raises e (build_prompt r j) (remote_calls w0 + i)"
  then have "\<forall>i<5. attempt_fails e (build_prompt r j) (remote_calls w0 + i)"
    by (simp add: attempt_raises_fails)
  then show "fst (run_ats_engine e r j w0) =
      Inr (lit ''Error: AI engine is currently overloaded. Please try again in 30 seconds.'')"
    by (simp add: run_ats_engine_all_fail fallback_def)
next
  assume h: "files req (lit ''resume'') = Some resume_file \<and>
    strip (form_get req ''job_description'' []) = jd_text \<and> jd_text \<noteq> [] \<and>
    save_raises e = None \<and>
    extract_text_from_pdf e (pdf_path_of e) (snd (save e resume_file (pdf_path_of e) w)) =
      (Inr resume_text, w2) \<and>
    resume_text \<noteq> []"
  then show "status (fst (analyze e req w)) = 200"
    using analyze_absorbs_remote_failure [of req resume_file jd_text e w resume_text w2]
    by blast
  assume "\<forall>i<5. attempt_raises e (build_prompt resume_text jd_text) (remote_calls w + i)"
  then show "json_field (fst (analyze e req w)) ''ats_result'' =
      Some (lit ''Error: AI engine is currently overloaded. Please try again in 30 seconds.'')"
    using h analyze_absorbs_remote_failure [of req resume_file jd_text e w resume_text w2]
    by (simp add: fallback_def)
qed

theorem remote_failure_is_absorbed_witness:
  "fst (run_ats_engine (demo_env always_raises) (lit ''Jane Doe'') (lit ''Python developer'')
          demo_world) =
     Inr (lit ''Error: AI engine is currently overloaded. Please try again in 30 seconds.'') \<and>
   status (fst (analyze (demo_env always_raises)
                  (demo_request demo_pdf (lit ''Python developer'')) demo_world)) = 200 \<and>
   json_field (fst (analyze (demo_env always_raises)
                      (demo_request demo_pdf (lit ''Python developer'')) demo_world))
     ''ats_result'' =
     Some (lit ''Error: AI engine is currently overloaded. Please try again in 30 seconds.'')"
proof -
  let ?e = "demo_env always_raises"
  let ?r = "demo_request demo_pdf (lit ''Python developer'')"
  let ?t = "lit ''Jane Doe'' @ [10] @ lit '' Python, SQL''"
  let ?w2 = "snd (save ?e demo_pdf (pdf_path_of ?e) demo_world)"
  have h: "files ?r (lit ''resume'') = Some demo_pdf \<and>
      strip (form_get ?r ''job_description'' []) = lit ''Python developer'' \<and>
      lit ''Python developer'' \<noteq> [] \<and>
      save_raises ?e = None \<and>
      extract_text_from_pdf ?e (pdf_path_of ?e) ?w2 = (Inr ?t, ?w2) \<and>
      ?t \<noteq> []"
    by (simp add: demo_request_def form_get_def extract_text_from_pdf_def extract_try_def
          save_def demo_env_def demo_pages_def strip_def isspace_def lit_def)
  have all: "\<forall>i<5. attempt_raises ?e (build_prompt ?t (lit ''Python developer''))
                      (remote_calls demo_world + i)"
    by (simp add: attempt_raises_def demo_env_def always_raises_def)
  have any: "\<forall>i<5. attempt_raises ?e
                      (build_prompt (lit ''Jane Doe'') (lit ''Python developer''))
                      (remote_calls demo_world + i)"
    by (simp add: attempt_raises_def demo_env_def always_raises_def)
  show ?thesis
    using h all any
      remote_failure_is_absorbed
        [of ?e "lit ''Jane Doe''" "lit ''Python developer''" demo_world ?r demo_pdf
            "lit ''Python developer''" demo_world ?t ?w2]
    by blast
qed

text \<open>
  Claim C2. \<open>run_ats_engine\<close> calls the service at most five times. When the first
  \<open>k\<close> calls fail and the next one gives a text, it has slept the first \<open>k\<close> delays of
  1, 2, 4, 8, 16 in that order. When all five calls raise it has slept 1, 2, 4, 8 and
  16 seconds, 31 in total, and returns the fallback string.
\<close>

theorem run_ats_engine_backoff:
  "remote_calls (snd (run_ats_engine e r j w)) \<le> remote_calls w + 5 \<and>
   (\<forall>k t. k < 5 \<and> (\<forall>i<k. attempt_fails e (build_prompt r j) (remote_calls w + i)) \<and>
          generate_content e (remote_calls w + k) MODEL_ID (build_prompt r j) =
            Response (Some t) \<longrightarrow>
      run_ats_engine e r j w =
        (Inr (strip t),
         w\<lparr>remote_calls := remote_calls w + Suc k,
           slept := slept w @ take k [1, 2, 4, 8, 16]\<rparr>)) \<and>
   ((\<forall>i<5. attempt_raises e (build_prompt r j) (remote_calls w + i)) \<longrightarrow>
      run_ats_engine e r j w =
        (Inr fallback,
         w\<lparr>remote_calls := remote_calls w + 5, slept := slept w @ [1, 2, 4, 8, 16]\<rparr>) \<and>
      sum_list (slept (snd (run_ats_engine e r j w))) = sum_list (slept w) + 31)"
proof (intro conjI allI impI)
  show "remote_calls (snd (run_ats_engine e r j w)) \<le> remote_calls w + 5"
    using run_ats_engine_frame [of e r j w] by simp
next
  fix k t
  assume "k < 5 \<and> (\<forall>i<k. attempt_fails e (build_prompt r j) (remote_calls w + i)) \<and>
          generate_content e (remote_calls w + k) MODEL_ID (build_prompt r j) =
            Response (Some t)"
  then show "run_ats_engine e r j w =
        (Inr (strip t),
         w\<lparr>remote_calls := remote_calls w + Suc k,
           slept := slept w @ take k [1, 2, 4, 8, 16]\<rparr>)"
    using run_ats_engine_success [of k e r j w t] by (simp add: delays_def)
next
  assume "\<forall>i<5. attempt_raises e (build_prompt r j) (remote_calls w + i)"
  then have "\<forall>i<5. attempt_fails e (build_prompt r j) (remote_calls w + i)"
    by (simp add: attempt_raises_fails)
  then have a: "run_ats_engine e r j w =
      (Inr fallback, w\<lparr>remote_calls := remote_calls w + 5, slept := slept w @ delays\<rparr>)"
    by (rule run_ats_engine_all_fail)
  show "run_ats_engine e r j w =
        (Inr fallback,
         w\<lparr>remote_calls := remote_calls w + 5, slept := slept w @ [1, 2, 4, 8, 16]\<rparr>)"
    using a by (simp add: delays_def)
  show "sum_list (slept (snd (run_ats_engine e r j w))) = sum_list (slept w) + 31"
    using a by (simp add: delays_def)
qed

theorem run_ats_engine_backoff_witness:
  "run_ats_engine (demo_env always_raises) (lit ''Jane Doe'') (lit ''Python developer'')
     demo_world =
     (Inr fallback, demo_world\<lparr>remote_calls := 5, slept := [1, 2, 4, 8, 16]\<rparr>) \<and>
   sum_list (slept (snd (run_ats_engine (demo_env always_raises) (lit ''Jane Doe'')
                           (lit ''Python developer'') demo_world))) = 31 \<and>
   run_ats_engine (demo_env third_time_lucky) (lit ''Jane Doe'') (lit ''Python developer'')
     demo_world =
     (Inr (lit ''ATS Match: 80%''), demo_world\<lparr>remote_calls := 3, slept := [1, 2]\<rparr>)"
proof -
  let ?p = "build_prompt (lit ''Jane Doe'') (lit ''Python developer'')"
  have z: "remote_calls demo_world = 0" "slept demo_world = []"
    by (simp_all add: demo_world_def)
  have a: "\<forall>i<5. attempt_raises (demo_env always_raises) ?p (remote_calls demo_world + i)"
    by (simp add: attempt_raises_def demo_env_def always_raises_def)
  have b: "(2::nat) < 5 \<and>
      (\<forall>i<2. attempt_fails (demo_env third_time_lucky) ?p (remote_calls demo_world + i)) \<and>
      generate_content (demo_env third_time_lucky) (remote_calls demo_world + 2) MODEL_ID ?p =
        Response (Some (lit '' ATS Match: 80% ''))"
    by (simp add: attempt_fails_def demo_env_def third_time_lucky_def z)
  have s: "strip (lit '' ATS Match: 80% '') = lit ''ATS Match: 80%''"
    by (simp add: strip_def isspace_def lit_def)
  have t: "take 2 [1, 2, 4, 8, 16] = [1, 2::nat]"
    by simp
  note r1 = run_ats_engine_backoff
              [of "demo_env always_raises" "lit ''Jane Doe''" "lit ''Python developer''"
                  demo_world]
  note r2 = run_ats_engine_backoff
              [of "demo_env third_time_lucky" "lit ''Jane Doe''" "lit ''Python developer''"
                  demo_world]
  have c1: "run_ats_engine (demo_env always_raises) (lit ''Jane Doe'')
              (lit ''Python developer'') demo_world =
            (Inr fallback, demo_world\<lparr>remote_calls := 5, slept := [1, 2, 4, 8, 16]\<rparr>)"
    and c2: "sum_list (slept (snd (run_ats_engine (demo_env always_raises) (lit ''Jane Doe'')
                           (lit ''Python developer'') demo_world))) = 31"
    using r1 a z by simp_all
  have "run_ats_engine (demo_env third_time_lucky) (lit ''Jane Doe'')
          (lit ''Python developer'') demo_world =
        (Inr (strip (lit '' ATS Match: 80% '')),
         demo_world\<lparr>remote_calls := remote_calls demo_world + Suc 2,
                    slept := slept demo_world @ take 2 [1, 2, 4, 8, 16]\<rparr>)"
    using r2 b by blast
  then have c3: "run_ats_engine (demo_env third_time_lucky) (lit ''Jane Doe'')
          (lit ''Python developer'') demo_world =
        (Inr (lit ''ATS Match: 80%''), demo_world\<lparr>remote_calls := 3, slept := [1, 2]\<rparr>)"
    unfolding s t z by simp
  show ?thesis using c1 c2 c3 by simp
qed

text \<open>
  Claim C10. \<open>run_ats_engine\<close> always returns a string: it never raises and never returns
  \<open>None\<close>. A call whose response has the text \<open>None\<close> is handled as a call that
  raises: the loop sleeps the delay of that round and goes on with the next one. When
  all five responses have the text \<open>None\<close>, the fallback string is returned.
\<close>

theorem none_text_is_a_failed_attempt:
  "(\<exists>s. fst (run_ats_engine e r j w) = Inr s) \<and>
   (\<forall>p delay rest.
      generate_content e (remote_calls w) MODEL_ID p = Response None \<longrightarrow>
      (\<exists>x. attempt e p w = (Inl x, w\<lparr>remote_calls := Suc (remote_calls w)\<rparr>)) \<and>
      retry_loop e p (delay # rest) w =
        retry_loop e p rest (sleep delay (w\<lparr>remote_calls := Suc (remote_calls w)\<rparr>))) \<and>
   ((\<forall>i<5. generate_content e (remote_calls w + i) MODEL_ID (build_prompt r j) =
             Response None) \<longrightarrow>
      run_ats_engine e r j w =
        (Inr fallback,
         w\<lparr>remote_calls := remote_calls w + 5, slept := slept w @ [1, 2, 4, 8, 16]\<rparr>))"
proof (intro conjI allI impI)
  show "\<exists>s. fst (run_ats_engine e r j w) = Inr s" by (rule run_ats_engine_returns)
next
  fix p delay rest
  assume "generate_content e (remote_calls w) MODEL_ID p = Response None"
  then show "\<exists>x. attempt e p w = (Inl x, w\<lparr>remote_calls := Suc (remote_calls w)\<rparr>)"
    by (simp add: attempt_def Let_def)
next
  fix p delay rest
  assume "generate_content e (remote_calls w) MODEL_ID p = Response None"
  then show "retry_loop e p (delay # rest) w =
        retry_loop e p rest (sleep delay (w\<lparr>remote_calls := Suc (remote_calls w)\<rparr>))"
    by (simp add: attempt_def Let_def)
next
  assume "\<forall>i<5. generate_content e (remote_calls w + i) MODEL_ID (build_prompt r j) =
             Response None"
  then have "\<forall>i<5. attempt_fails e (build_prompt r j) (remote_calls w + i)"
    by (simp add: response_none_fails)
  then have "run_ats_engine e r j w =
      (Inr fallback, w\<lparr>remote_calls := remote_calls w + 5, slept := slept w @ delays\<rparr>)"
    by (rule run_ats_engine_all_fail)
  then show "run_ats_engine e r j w =
        (Inr fallback,
         w\<lparr>remote_calls := remote_calls w + 5, slept := slept w @ [1, 2, 4, 8, 16]\<rparr>)"
    by (simp add: delays_def)
qed

theorem none_text_is_a_failed_attempt_witness:
  "run_ats_engine (demo_env always_none) (lit ''Jane Doe'') (lit ''Python developer'')
     demo_world =
     (Inr (lit ''Error: AI engine is currently overloaded. Please try again in 30 seconds.''),
      demo_world\<lparr>remote_calls := 5, slept := [1, 2, 4, 8, 16]\<rparr>) \<and>
   retry_loop (demo_env always_none) (lit ''prompt'') [1, 2] demo_world =
     retry_loop (demo_env always_none) (lit ''prompt'') [2]
       (demo_world\<lparr>remote_calls := 1, slept := [1]\<rparr>)"
proof -
  let ?e = "demo_env always_none"
  have z: "remote_calls demo_world = 0" "slept demo_world = []"
    by (simp_all add: demo_world_def)
  have a: "\<forall>i<5. generate_content ?e (remote_calls demo_world + i) MODEL_ID
                    (build_prompt (lit ''Jane Doe'') (lit ''Python developer'')) =
                  Response None"
    by (simp add: demo_env_def always_none_def)
  have b: "generate_content ?e (remote_calls demo_world) MODEL_ID (lit ''prompt'') =
             Response None"
    by (simp add: demo_env_def always_none_def)
  note r = none_text_is_a_failed_attempt
             [of ?e "lit ''Jane Doe''" "lit ''Python developer''" demo_world]
  have c1: "run_ats_engine ?e (lit ''Jane Doe'') (lit ''Python developer'') demo_world =
      (Inr fallback, demo_world\<lparr>remote_calls := 5, slept := [1, 2, 4, 8, 16]\<rparr>)"
    using r a z by simp
  have "retry_loop ?e (lit ''prompt'') (1 # [2]) demo_world =
      retry_loop ?e (lit ''prompt'') [2]
        (sleep 1 (demo_world\<lparr>remote_calls := Suc (remote_calls demo_world)\<rparr>))"
    using r b by blast
  then have c2: "retry_loop ?e (lit ''prompt'') [1, 2] demo_world =
      retry_loop ?e (lit ''prompt'') [2] (demo_world\<lparr>remote_calls := 1, slept := [1]\<rparr>)"
    by (simp add: sleep_def z)
  show ?thesis using c1 c2 by (simp add: fallback_def)
qed

end
